theory Spec2Isabelle
  imports Complex_Main "HOL-Library.Word" "HOL-Library.Sublist"
begin

section \<open>Values of the chat component\<close>

text \<open>
  A JavaScript string is a sequence of 16-bit code units. Literals of the source that are
  plain ASCII are written through \<open>ascii\<close>; the emoji of the fallback text is the surrogate
  pair of U+1F615.
\<close>

type_synonym jsstring = "16 word list"

definition ascii :: "string \<Rightarrow> jsstring" where
  "ascii cs = map (\<lambda>c. of_nat (of_char c)) cs"

text \<open>
  What \<open>res.json()\<close> can resolve with: a parsed JSON value. An object is the list of its own
  properties. Reading a property gives a JSON value or \<open>undefined\<close>.
\<close>

datatype json =
    JNull
  | JBool bool
  | JNum real
  | JStr jsstring
  | JArr "json list"
  | JObj "(jsstring \<times> json) list"

datatype jsval = Undefined | Val json

text \<open>
  What can be thrown: the errors of \<open>fetch\<close>, of \<open>res.json()\<close> and of a property read, and
  the error with which React refuses a child that it cannot render.
\<close>

datatype exn = TypeError | SyntaxError | AbortError | InvalidChild

datatype 'a settled = Rejected exn | Resolved 'a

datatype role = User | Bot

record message =
  role :: role
  text' :: jsval

record request =
  url :: jsstring
  http_method :: jsstring
  headers :: "(jsstring \<times> jsstring) list"
  body :: json

record response =
  status :: nat

text \<open>
  A call of \<open>sendMessage\<close> that is suspended at one of its two \<open>await\<close>s.
\<close>

datatype task = AwaitFetch request | AwaitJson response

text \<open>
  The state of the mounted component: the three \<open>useState\<close> cells of \<open>Chat\<close>, the suspended
  calls of \<open>sendMessage\<close>, and the rejections of \<open>sendMessage\<close>'s own promise, which no caller
  handles.
\<close>

record chat =
  messages :: "message list"
  input :: jsstring
  loading :: bool
  tasks :: "task list"
  unhandled :: "exn list"

definition init :: chat where
  "init = \<lparr>messages = [], input = [], loading = False, tasks = [], unhandled = []\<rparr>"

definition API_URL :: jsstring where
  "API_URL = ascii ''http://127.0.0.1:8000/chat''"

definition fallback :: jsstring where
  "fallback = ascii ''Server not reachable '' @ [0xD83D, 0xDE15]"

text \<open>
  What an event leads to: it cannot happen in this state, or React throws while it applies
  the updates and renders, and unmounts the component, or the component is in a next state.
\<close>

datatype outcome = Impossible | Crash exn | Next chat

section \<open>String.prototype.trim\<close>

text \<open>
  The code units that \<open>trim\<close> strips: ECMAScript's WhiteSpace and LineTerminator.
\<close>

definition is_ws :: "16 word \<Rightarrow> bool" where
  "is_ws c \<longleftrightarrow>
     c \<in> {0x0009, 0x000A, 0x000B, 0x000C, 0x000D, 0x0020, 0x00A0, 0x1680,
          0x2028, 0x2029, 0x202F, 0x205F, 0x3000, 0xFEFF}
     \<or> (0x2000 \<le> c \<and> c \<le> 0x200A)"

definition trim :: "jsstring \<Rightarrow> jsstring" where
  "trim s = rev (dropWhile is_ws (rev (dropWhile is_ws s)))"

section \<open>State updates\<close>

text \<open>
  \<open>data.reply\<close>: reading a property of \<open>null\<close> throws a TypeError; an object gives the
  property's value, or \<open>undefined\<close> when it has none of that name; a boolean, a number, a
  string and an array have no property \<open>reply\<close>.
\<close>

fun reply :: "json \<Rightarrow> exn + jsval" where
  "reply JNull = Inl TypeError"
| "reply (JObj props) =
     Inr (case map_of props (ascii ''reply'') of None \<Rightarrow> Undefined | Some v \<Rightarrow> Val v)"
| "reply _ = Inr Undefined"

text \<open>
  One constructor for each kind of statement of \<open>Chat\<close> that acts on the component:
  \<open>setMessages(prev => [...prev, m])\<close> with a message \<open>m\<close> that is known at the call,
  \<open>setMessages(prev => [...prev, { role: "bot", text: data.reply }])\<close>, \<open>setInput(v)\<close>,
  \<open>setLoading(b)\<close>, and the call of \<open>fetch\<close>, after which the call of \<open>sendMessage\<close> is
  suspended.
\<close>

datatype effect =
    AppendMessage message
  | AppendReply json
  | SetInput jsstring
  | SetLoading bool
  | Fetch request

text \<open>
  A setter only queues its update; React applies the queue when it renders next. The
  updater of \<open>AppendReply\<close> reads \<open>data.reply\<close> at that moment, outside every \<open>try\<close> block of
  \<open>sendMessage\<close>: its TypeError is thrown inside React (\<open>Inl\<close>).
\<close>

fun exec :: "effect \<Rightarrow> chat \<Rightarrow> exn + chat" where
  "exec (AppendMessage m) s = Inr (s\<lparr>messages := messages s @ [m]\<rparr>)"
| "exec (AppendReply data) s =
     (case reply data of
        Inl e \<Rightarrow> Inl e
      | Inr v \<Rightarrow> Inr (s\<lparr>messages := messages s @ [\<lparr>role = Bot, text' = v\<rparr>]\<rparr>))"
| "exec (SetInput v) s = Inr (s\<lparr>input := v\<rparr>)"
| "exec (SetLoading b) s = Inr (s\<lparr>loading := b\<rparr>)"
| "exec (Fetch rq) s = Inr (s\<lparr>tasks := tasks s @ [AwaitFetch rq]\<rparr>)"

fun execs :: "effect list \<Rightarrow> chat \<Rightarrow> exn + chat" where
  "execs [] s = Inr s"
| "execs (e # es) s = (case exec e s of Inl x \<Rightarrow> Inl x | Inr s' \<Rightarrow> execs es s')"

section \<open>Message\<close>

text \<open>
  \<open>Message\<close> places \<open>text\<close> as a child of the bubble. React renders a string or a number,
  renders nothing for \<open>undefined\<close>, \<open>null\<close> and a boolean, renders the elements of an array
  one by one, and throws for any other object.
\<close>

fun valid_child :: "json \<Rightarrow> bool" where
  "valid_child (JObj props) = False"
| "valid_child (JArr vs) = list_all valid_child vs"
| "valid_child _ = True"

definition renderable :: "jsval \<Rightarrow> bool" where
  "renderable t = (case t of Undefined \<Rightarrow> True | Val v \<Rightarrow> valid_child v)"

definition Message :: "message \<Rightarrow> exn option" where
  "Message m = (if renderable (text' m) then None else Some InvalidChild)"

text \<open>
  \<open>messages.map(...)\<close> in \<open>Chat\<close>: the error of the first message that cannot be rendered.
\<close>

fun render :: "message list \<Rightarrow> exn option" where
  "render [] = None"
| "render (m # ms) = (case Message m of Some e \<Rightarrow> Some e | None \<Rightarrow> render ms)"

text \<open>
  React applies the queued updates and renders. An error thrown there is caught by nothing
  in \<open>Chat\<close>, and React unmounts the component. The messages of a mounted component have
  been rendered when they were added, so a render can throw only for the messages that
  the updates add.
\<close>

definition commit :: "effect list \<Rightarrow> chat \<Rightarrow> outcome" where
  "commit effs s =
     (case execs effs s of
        Inl e \<Rightarrow> Crash e
      | Inr s' \<Rightarrow>
          (case render (drop (length (messages s)) (messages s')) of
             Some e \<Rightarrow> Crash e
           | None \<Rightarrow> Next s'))"

section \<open>sendMessage\<close>

text \<open>
  A block of statements: the updates it has made, and how it ended (\<open>Inl\<close>: it threw).
\<close>

type_synonym 'a comp = "effect list \<times> (exn + 'a)"

definition try_catch_finally :: "'a comp \<Rightarrow> 'a comp \<Rightarrow> effect list \<Rightarrow> 'a comp" where
  "try_catch_finally blk handler finalizer =
     (case blk of
        (es, Inr v) \<Rightarrow> (es @ finalizer, Inr v)
      | (es, Inl e) \<Rightarrow> (es @ fst handler @ finalizer, snd handler))"

text \<open>
  The call of \<open>sendMessage\<close> up to its first \<open>await\<close>, on the \<open>input\<close> and \<open>loading\<close> of the
  render that created the handler. The empty string is the only falsy string.
\<close>

definition sendMessage :: "jsstring \<Rightarrow> bool \<Rightarrow> effect list" where
  "sendMessage inp ld =
     (if trim inp = [] \<or> ld then []
      else
        let userText = inp in
        [AppendMessage \<lparr>role = User, text' = Val (JStr userText)\<rparr>,
         SetInput [],
         SetLoading True,
         Fetch \<lparr>url = API_URL, http_method = ascii ''POST'',
                headers = [(ascii ''Content-Type'', ascii ''application/json'')],
                body = JObj [(ascii ''message'', JStr userText)]\<rparr>])"

text \<open>
  The \<open>try\<close> block resumed when \<open>fetch\<close> settles: a rejection is thrown at the first
  \<open>await\<close>, a response leads to \<open>res.json()\<close> and the second \<open>await\<close>.
\<close>

definition after_fetch :: "response settled \<Rightarrow> task + unit comp" where
  "after_fetch r =
     (case r of
        Rejected e \<Rightarrow> Inr ([], Inl e)
      | Resolved res \<Rightarrow> Inl (AwaitJson res))"

text \<open>
  The \<open>try\<close> block resumed when \<open>res.json()\<close> settles: a rejection is thrown at the second
  \<open>await\<close>; with a parsed body the block calls \<open>setMessages\<close> and ends normally, whatever the
  body is.
\<close>

definition after_json :: "json settled \<Rightarrow> unit comp" where
  "after_json r =
     (case r of
        Rejected e \<Rightarrow> ([], Inl e)
      | Resolved data \<Rightarrow> ([AppendReply data], Inr ()))"

definition handler :: "unit comp" where
  "handler = ([AppendMessage \<lparr>role = Bot, text' = Val (JStr fallback)\<rparr>], Inr ())"

definition finalizer :: "effect list" where
  "finalizer = [SetLoading False]"

section \<open>The component as a transition system\<close>

text \<open>
  JavaScript runs each handler and each resumption to its end before the next one starts.
  Every handler is taken to run on the state of the latest render, and a render to follow
  the updates of one handler or resumption before the next event is handled. A request that
  never settles is a task that no event ever resumes.
\<close>

datatype event =
    Change jsstring
  | KeyDown jsstring bool
  | Click
  | FetchSettled nat "response settled"
  | JsonSettled nat "json settled"

definition submit :: "chat \<Rightarrow> outcome" where
  "submit s = commit (sendMessage (input s) (loading s)) s"

text \<open>
  The end of the call suspended as task \<open>i\<close>: if the call ended by throwing, its promise is
  rejected with nobody to handle it; then React applies the last updates of the call.
\<close>

definition finish :: "nat \<Rightarrow> unit comp \<Rightarrow> chat \<Rightarrow> outcome" where
  "finish i c s =
     (let s1 = s\<lparr>tasks := take i (tasks s) @ drop (Suc i) (tasks s)\<rparr>
      in commit (fst c)
           (case snd c of
              Inl e \<Rightarrow> s1\<lparr>unhandled := unhandled s1 @ [e]\<rparr>
            | Inr _ \<Rightarrow> s1))"

text \<open>
  \<open>Impossible\<close>: the button is disabled while \<open>loading\<close>; a promise settles once, for a call
  that awaits it. A handler that calls no setter causes no render.
\<close>

fun step :: "chat \<Rightarrow> event \<Rightarrow> outcome" where
  "step s (Change v) = commit [SetInput v] s"
| "step s (KeyDown k shiftKey) =
     (if k = ascii ''Enter'' \<and> \<not> shiftKey then submit s else Next s)"
| "step s Click = (if loading s then Impossible else submit s)"
| "step s (FetchSettled i r) =
     (if i < length (tasks s) then
        (case tasks s ! i of
           AwaitFetch rq \<Rightarrow>
             (case after_fetch r of
                Inl t \<Rightarrow> Next (s\<lparr>tasks := (tasks s)[i := t]\<rparr>)
              | Inr c \<Rightarrow> finish i (try_catch_finally c handler finalizer) s)
         | AwaitJson res \<Rightarrow> Impossible)
      else Impossible)"
| "step s (JsonSettled i r) =
     (if i < length (tasks s) then
        (case tasks s ! i of
           AwaitFetch rq \<Rightarrow> Impossible
         | AwaitJson res \<Rightarrow> finish i (try_catch_finally (after_json r) handler finalizer) s)
      else Impossible)"

text \<open>
  A sequence of events. Once the component is unmounted, nothing more happens to it.
\<close>

fun run :: "chat \<Rightarrow> event list \<Rightarrow> outcome" where
  "run s [] = Next s"
| "run s (e # es) = (case step s e of Next s' \<Rightarrow> run s' es | out \<Rightarrow> out)"

section \<open>Facts about one step\<close>

lemma all_dropWhile_iff:
  "(\<forall>x \<in> set (dropWhile P xs). P x) \<longleftrightarrow> (\<forall>x \<in> set xs. P x)"
proof
  assume a: "\<forall>x \<in> set (dropWhile P xs). P x"
  have "dropWhile P xs = []"
  proof (rule ccontr)
    assume ne: "dropWhile P xs \<noteq> []"
    then have "\<not> P (hd (dropWhile P xs))" by (rule hd_dropWhile)
    moreover have "hd (dropWhile P xs) \<in> set (dropWhile P xs)" using ne by (rule hd_in_set)
    ultimately show False using a by blast
  qed
  then show "\<forall>x \<in> set xs. P x" by (simp only: dropWhile_eq_Nil_conv)
next
  assume "\<forall>x \<in> set xs. P x"
  then show "\<forall>x \<in> set (dropWhile P xs). P x" by (blast dest: set_dropWhileD)
qed

lemma trim_empty_iff: "trim s = [] \<longleftrightarrow> (\<forall>c \<in> set s. is_ws c)"
  by (simp add: trim_def all_dropWhile_iff)

lemma renderable_string: "renderable (Val (JStr t))"
  by (simp add: renderable_def)

lemma submit_start:
  "trim (input s) \<noteq> [] \<Longrightarrow> \<not> loading s \<Longrightarrow>
   submit s = Next (s\<lparr>messages := messages s @ [\<lparr>role = User, text' = Val (JStr (input s))\<rparr>],
                 input := [], loading := True,
                 tasks := tasks s @ [AwaitFetch \<lparr>url = API_URL, http_method = ascii ''POST'',
                headers = [(ascii ''Content-Type'', ascii ''application/json'')],
                body = JObj [(ascii ''message'', JStr (input s))]\<rparr>]\<rparr>)"
  by (simp add: submit_def commit_def sendMessage_def Let_def Message_def renderable_string)

lemma submit_idle: "trim (input s) = [] \<or> loading s \<Longrightarrow> submit s = Next s"
  by (auto simp: submit_def commit_def sendMessage_def)

lemma finish_caught:
  "finish i (try_catch_finally ([], Inl e) handler finalizer) s =
     Next (s\<lparr>messages := messages s @ [\<lparr>role = Bot, text' = Val (JStr fallback)\<rparr>],
       loading := False,
       tasks := take i (tasks s) @ drop (Suc i) (tasks s)\<rparr>)"
  by (simp add: finish_def try_catch_finally_def handler_def finalizer_def commit_def
      Message_def renderable_string)

lemma finish_replied:
  "reply data = Inr v \<Longrightarrow> renderable v \<Longrightarrow>
   finish i (try_catch_finally ([AppendReply data], Inr ()) handler finalizer) s =
     Next (s\<lparr>messages := messages s @ [\<lparr>role = Bot, text' = v\<rparr>],
       loading := False,
       tasks := take i (tasks s) @ drop (Suc i) (tasks s)\<rparr>)"
  by (simp add: finish_def try_catch_finally_def finalizer_def commit_def Message_def)

lemma finish_reply:
  "finish i (try_catch_finally ([AppendReply data], Inr ()) handler finalizer) s =
     (case reply data of
        Inl e \<Rightarrow> Crash e
      | Inr v \<Rightarrow>
          if renderable v
          then Next (s\<lparr>messages := messages s @ [\<lparr>role = Bot, text' = v\<rparr>],
                       loading := False,
                       tasks := take i (tasks s) @ drop (Suc i) (tasks s)\<rparr>)
          else Crash InvalidChild)"
  by (simp add: finish_def try_catch_finally_def finalizer_def commit_def Message_def
      split: sum.split)

lemma finish_reply_throws:
  "reply data = Inl e \<Longrightarrow>
   finish i (try_catch_finally ([AppendReply data], Inr ()) handler finalizer) s = Crash e"
  by (simp add: finish_def try_catch_finally_def finalizer_def commit_def)

lemma finish_reply_invalid:
  "reply data = Inr v \<Longrightarrow> \<not> renderable v \<Longrightarrow>
   finish i (try_catch_finally ([AppendReply data], Inr ()) handler finalizer) s
     = Crash InvalidChild"
  by (simp add: finish_def try_catch_finally_def finalizer_def commit_def Message_def)

lemma step_fetch_rejected:
  "i < length (tasks s) \<Longrightarrow> tasks s ! i = AwaitFetch rq \<Longrightarrow>
   step s (FetchSettled i (Rejected e)) =
     Next (s\<lparr>messages := messages s @ [\<lparr>role = Bot, text' = Val (JStr fallback)\<rparr>],
             loading := False,
             tasks := take i (tasks s) @ drop (Suc i) (tasks s)\<rparr>)"
  by (simp add: after_fetch_def finish_caught)

lemma step_fetch_resolved:
  "i < length (tasks s) \<Longrightarrow> tasks s ! i = AwaitFetch rq \<Longrightarrow>
   step s (FetchSettled i (Resolved res)) = Next (s\<lparr>tasks := (tasks s)[i := AwaitJson res]\<rparr>)"
  by (simp add: after_fetch_def)

lemma step_json_rejected:
  "i < length (tasks s) \<Longrightarrow> tasks s ! i = AwaitJson res \<Longrightarrow>
   step s (JsonSettled i (Rejected e)) =
     Next (s\<lparr>messages := messages s @ [\<lparr>role = Bot, text' = Val (JStr fallback)\<rparr>],
             loading := False,
             tasks := take i (tasks s) @ drop (Suc i) (tasks s)\<rparr>)"
  by (simp add: after_json_def finish_caught)

lemma step_json_replied:
  "i < length (tasks s) \<Longrightarrow> tasks s ! i = AwaitJson res \<Longrightarrow> reply data = Inr v \<Longrightarrow>
   renderable v \<Longrightarrow>
   step s (JsonSettled i (Resolved data)) =
     Next (s\<lparr>messages := messages s @ [\<lparr>role = Bot, text' = v\<rparr>],
             loading := False,
             tasks := take i (tasks s) @ drop (Suc i) (tasks s)\<rparr>)"
  by (simp add: after_json_def finish_replied)

lemma step_json:
  "i < length (tasks s) \<Longrightarrow> tasks s ! i = AwaitJson res \<Longrightarrow>
   step s (JsonSettled i r) =
     (case r of
        Rejected e \<Rightarrow>
          Next (s\<lparr>messages := messages s @ [\<lparr>role = Bot, text' = Val (JStr fallback)\<rparr>],
                  loading := False,
                  tasks := take i (tasks s) @ drop (Suc i) (tasks s)\<rparr>)
      | Resolved data \<Rightarrow>
          (case reply data of
             Inl e \<Rightarrow> Crash e
           | Inr v \<Rightarrow>
               if renderable v
               then Next (s\<lparr>messages := messages s @ [\<lparr>role = Bot, text' = v\<rparr>],
                            loading := False,
                            tasks := take i (tasks s) @ drop (Suc i) (tasks s)\<rparr>)
               else Crash InvalidChild))"
  by (simp add: after_json_def finish_caught finish_replied finish_reply_throws
      finish_reply_invalid split: settled.split sum.split)

lemma step_json_appends:
  assumes "step s (JsonSettled i r) = Next s'"
  shows "\<exists>v. s' = s\<lparr>messages := messages s @ [\<lparr>role = Bot, text' = v\<rparr>], loading := False,
             tasks := take i (tasks s) @ drop (Suc i) (tasks s)\<rparr>"
proof -
  from assms obtain res where i: "i < length (tasks s)" and t: "tasks s ! i = AwaitJson res"
    by (auto split: if_splits task.splits)
  from step_json[OF i t, of r] assms show ?thesis
    by (auto split: settled.splits sum.splits if_splits)
qed

lemma step_fetch_cases:
  assumes "step s (FetchSettled i r) = Next s'"
  shows "(\<exists>res. r = Resolved res \<and> s' = s\<lparr>tasks := (tasks s)[i := AwaitJson res]\<rparr>)
       \<or> s' = s\<lparr>messages := messages s @ [\<lparr>role = Bot, text' = Val (JStr fallback)\<rparr>],
             loading := False,
             tasks := take i (tasks s) @ drop (Suc i) (tasks s)\<rparr>"
proof -
  from assms obtain rq where i: "i < length (tasks s)" and t: "tasks s ! i = AwaitFetch rq"
    by (auto split: if_splits task.splits)
  show ?thesis
  proof (cases r)
    case (Rejected e)
    with step_fetch_rejected[OF i t, of e] assms show ?thesis by simp
  next
    case (Resolved res)
    with step_fetch_resolved[OF i t, of res] assms show ?thesis by simp
  qed
qed

lemma settled_index:
  "step s (FetchSettled i r) = Next s' \<or> step s (JsonSettled i r') = Next s' \<Longrightarrow>
   i < length (tasks s)"
  by (auto split: if_splits)

lemma submit_cases:
  "submit s = Next s \<or>
   (trim (input s) \<noteq> [] \<and> \<not> loading s \<and>
    submit s = Next (s\<lparr>messages := messages s @ [\<lparr>role = User, text' = Val (JStr (input s))\<rparr>],
                 input := [], loading := True,
                 tasks := tasks s @ [AwaitFetch \<lparr>url = API_URL, http_method = ascii ''POST'',
                headers = [(ascii ''Content-Type'', ascii ''application/json'')],
                body = JObj [(ascii ''message'', JStr (input s))]\<rparr>]\<rparr>))"
  using submit_idle[of s] submit_start[of s] by blast

section \<open>Facts about runs\<close>

lemma trim_Hello: "trim (ascii ''Hello'') \<noteq> []"
  by (simp add: trim_def ascii_def is_ws_def)

lemma trim_A: "trim (ascii ''A'') \<noteq> []"
  by (simp add: trim_def ascii_def is_ws_def)

lemma trim_B: "trim (ascii ''B'') \<noteq> []"
  by (simp add: trim_def ascii_def is_ws_def)

lemma detail_neq_reply: "ascii ''reply'' \<noteq> ascii ''detail''"
  by (simp add: ascii_def)

lemma run_hello_ok:
  "run init [Change (ascii ''Hello''), Click, FetchSettled 0 (Resolved \<lparr>status = 200\<rparr>),
             JsonSettled 0 (Resolved (JObj [(ascii ''reply'', JStr (ascii ''Hi there''))]))]
   = Next \<lparr>messages = [\<lparr>role = User, text' = Val (JStr (ascii ''Hello''))\<rparr>,
                         \<lparr>role = Bot, text' = Val (JStr (ascii ''Hi there''))\<rparr>],
            input = [], loading = False, tasks = [], unhandled = []\<rparr>"
  by (simp add: init_def commit_def submit_start trim_Hello after_fetch_def after_json_def
      finish_reply renderable_def)

lemma run_hello_unreachable:
  "run init [Change (ascii ''Hello''), Click, FetchSettled 0 (Rejected TypeError)]
   = Next \<lparr>messages = [\<lparr>role = User, text' = Val (JStr (ascii ''Hello''))\<rparr>,
                         \<lparr>role = Bot, text' = Val (JStr fallback)\<rparr>],
            input = [], loading = False, tasks = [], unhandled = []\<rparr>"
  by (simp add: init_def commit_def submit_start trim_Hello after_fetch_def finish_caught)

lemma run_hello_500:
  "run init [Change (ascii ''Hello''), Click, FetchSettled 0 (Resolved \<lparr>status = 500\<rparr>),
             JsonSettled 0 (Resolved (JObj [(ascii ''detail'', JStr (ascii ''Internal Server Error''))]))]
   = Next \<lparr>messages = [\<lparr>role = User, text' = Val (JStr (ascii ''Hello''))\<rparr>,
                         \<lparr>role = Bot, text' = Undefined\<rparr>],
            input = [], loading = False, tasks = [], unhandled = []\<rparr>"
  by (simp add: init_def commit_def submit_start trim_Hello after_fetch_def after_json_def
      finish_reply renderable_def detail_neq_reply)



lemma run_A_B:
  "run init [Change (ascii ''A''), KeyDown (ascii ''Enter'') False,
             Change (ascii ''B''), KeyDown (ascii ''Enter'') False]
   = Next \<lparr>messages = [\<lparr>role = User, text' = Val (JStr (ascii ''A''))\<rparr>],
            input = ascii ''B'', loading = True,
            tasks = [AwaitFetch \<lparr>url = API_URL, http_method = ascii ''POST'',
                                 headers = [(ascii ''Content-Type'', ascii ''application/json'')],
                                 body = JObj [(ascii ''message'', JStr (ascii ''A''))]\<rparr>],
            unhandled = []\<rparr>"
  by (simp add: init_def commit_def submit_start submit_idle trim_A)


lemma run_A_B_then_B:
  "run init [Change (ascii ''A''), KeyDown (ascii ''Enter'') False,
             Change (ascii ''B''), KeyDown (ascii ''Enter'') False,
             FetchSettled 0 (Rejected TypeError), KeyDown (ascii ''Enter'') False]
   = Next \<lparr>messages = [\<lparr>role = User, text' = Val (JStr (ascii ''A''))\<rparr>,
                         \<lparr>role = Bot, text' = Val (JStr fallback)\<rparr>,
                         \<lparr>role = User, text' = Val (JStr (ascii ''B''))\<rparr>],
            input = [], loading = True,
            tasks = [AwaitFetch \<lparr>url = API_URL, http_method = ascii ''POST'',
                                 headers = [(ascii ''Content-Type'', ascii ''application/json'')],
                                 body = JObj [(ascii ''message'', JStr (ascii ''B''))]\<rparr>],
            unhandled = []\<rparr>"
  by (simp add: init_def commit_def submit_start submit_idle trim_A trim_B after_fetch_def
      finish_caught)

lemma run_hello_edit:
  "run init [Change (ascii ''Hello''), Click, Change (ascii ''next''),
             FetchSettled 0 (Resolved \<lparr>status = 200\<rparr>),
             JsonSettled 0 (Resolved (JObj [(ascii ''reply'', JStr (ascii ''Hi there''))]))]
   = Next \<lparr>messages = [\<lparr>role = User, text' = Val (JStr (ascii ''Hello''))\<rparr>,
                         \<lparr>role = Bot, text' = Val (JStr (ascii ''Hi there''))\<rparr>],
            input = ascii ''next'', loading = False, tasks = [], unhandled = []\<rparr>"
  by (simp add: init_def commit_def submit_start trim_Hello after_fetch_def after_json_def
      finish_reply renderable_def)

lemma one_task_step:
  assumes inv: "length (tasks s) \<le> 1 \<and> (loading s \<longleftrightarrow> tasks s \<noteq> [])"
    and st: "step s e = Next s'"
  shows "length (tasks s') \<le> 1 \<and> (loading s' \<longleftrightarrow> tasks s' \<noteq> [])"
proof (cases e)
  case (Change v)
  with inv st show ?thesis by (auto simp: commit_def)
next
  case (KeyDown k shiftKey)
  with inv st submit_cases[of s] show ?thesis by (auto split: if_splits)
next
  case Click
  with inv st submit_cases[of s] show ?thesis by (auto split: if_splits)
next
  case (FetchSettled i r)
  with st have i: "i < length (tasks s)" using settled_index by blast
  from FetchSettled inv st step_fetch_cases[of s i r s'] i show ?thesis by auto
next
  case (JsonSettled i r)
  with st have i: "i < length (tasks s)" using settled_index by blast
  from JsonSettled inv st step_json_appends[of s i r s'] i show ?thesis by auto
qed

lemma one_task_run:
  "length (tasks s) \<le> 1 \<and> (loading s \<longleftrightarrow> tasks s \<noteq> []) \<Longrightarrow> run s es = Next s' \<Longrightarrow>
   length (tasks s') \<le> 1 \<and> (loading s' \<longleftrightarrow> tasks s' \<noteq> [])"
proof (induction es arbitrary: s)
  case Nil
  then show ?case by simp
next
  case (Cons e es)
  from Cons.prems(2) obtain s1 where s1: "step s e = Next s1" and r: "run s1 es = Next s'"
    by (auto split: outcome.splits)
  from one_task_step[OF Cons.prems(1) s1] have "length (tasks s1) \<le> 1 \<and> (loading s1 \<longleftrightarrow> tasks s1 \<noteq> [])" .
  from Cons.IH[OF this r] show ?case .
qed

lemma messages_prefix_step: "step s e = Next s' \<Longrightarrow> prefix (messages s) (messages s')"
proof (cases e)
  case (Change v)
  assume "step s e = Next s'"
  with Change show ?thesis by (auto simp: commit_def)
next
  case (KeyDown k shiftKey)
  assume "step s e = Next s'"
  with KeyDown submit_cases[of s] show ?thesis by (auto split: if_splits)
next
  case Click
  assume "step s e = Next s'"
  with Click submit_cases[of s] show ?thesis by (auto split: if_splits)
next
  case (FetchSettled i r)
  assume "step s e = Next s'"
  with FetchSettled step_fetch_cases[of s i r s'] show ?thesis by auto
next
  case (JsonSettled i r)
  assume "step s e = Next s'"
  with JsonSettled step_json_appends[of s i r s'] show ?thesis by auto
qed

section \<open>Claims\<close>




text \<open>
  C3. When the draft consists of whitespace only (the empty draft included), or when
  \<open>loading\<close> is true, \<open>sendMessage\<close> makes no update and issues no request: the state after
  the call is the state before it, and the handlers that call it return normally.
\<close>

theorem submit_is_noop_when_blank_or_busy:
  assumes "(\<forall>c \<in> set (input s). is_ws c) \<or> loading s"
  shows "sendMessage (input s) (loading s) = []
       \<and> submit s = Next s
       \<and> step s (KeyDown (ascii ''Enter'') False) = Next s
       \<and> step s Click = (if loading s then Impossible else Next s)"
proof -
  from assms have g: "trim (input s) = [] \<or> loading s"
    by (simp add: trim_empty_iff)
  then have eff: "sendMessage (input s) (loading s) = []"
    by (auto simp: sendMessage_def)
  from g have "submit s = Next s" by (rule submit_idle)
  with eff show ?thesis by simp
qed

theorem submit_is_noop_when_blank_or_busy_witness:
  "trim (ascii ''  '') = []
   \<and> submit \<lparr>messages = [], input = ascii ''  '', loading = False, tasks = [], unhandled = []\<rparr>
       = Next \<lparr>messages = [], input = ascii ''  '', loading = False, tasks = [], unhandled = []\<rparr>
   \<and> step \<lparr>messages = [], input = ascii ''  '', loading = False, tasks = [], unhandled = []\<rparr>
         (KeyDown (ascii ''Enter'') False)
       = Next \<lparr>messages = [], input = ascii ''  '', loading = False, tasks = [], unhandled = []\<rparr>
   \<and> step \<lparr>messages = [\<lparr>role = User, text' = Val (JStr (ascii ''A''))\<rparr>], input = ascii ''B'',
            loading = True, tasks = [AwaitJson \<lparr>status = 200\<rparr>], unhandled = []\<rparr>
         (KeyDown (ascii ''Enter'') False)
       = Next \<lparr>messages = [\<lparr>role = User, text' = Val (JStr (ascii ''A''))\<rparr>], input = ascii ''B'',
                loading = True, tasks = [AwaitJson \<lparr>status = 200\<rparr>], unhandled = []\<rparr>"
proof -
  have blank: "\<forall>c \<in> set (ascii ''  ''). is_ws c"
    by (simp add: ascii_def is_ws_def)
  have h1: "(\<forall>c \<in> set (input \<lparr>messages = [], input = ascii ''  '', loading = False,
                                  tasks = [], unhandled = []\<rparr>). is_ws c)
            \<or> loading \<lparr>messages = [], input = ascii ''  '', loading = False,
                        tasks = [], unhandled = []\<rparr>"
    using blank by simp
  have h2: "(\<forall>c \<in> set (input \<lparr>messages = [\<lparr>role = User, text' = Val (JStr (ascii ''A''))\<rparr>],
                 input = ascii ''B'', loading = True, tasks = [AwaitJson \<lparr>status = 200\<rparr>],
                 unhandled = []\<rparr>). is_ws c)
            \<or> loading \<lparr>messages = [\<lparr>role = User, text' = Val (JStr (ascii ''A''))\<rparr>],
                 input = ascii ''B'', loading = True, tasks = [AwaitJson \<lparr>status = 200\<rparr>],
                 unhandled = []\<rparr>"
    by simp
  from blank have "trim (ascii ''  '') = []" by (simp only: trim_empty_iff)
  with submit_is_noop_when_blank_or_busy[OF h1] submit_is_noop_when_blank_or_busy[OF h2]
  show ?thesis by blast
qed

text \<open>
  C4. With a draft that does not trim to the empty string, and \<open>loading\<close> false, \<open>sendMessage\<close>
  makes its updates in this order: it appends the user-role message whose text is the
  draft, then sets the draft to the empty string, then sets \<open>loading\<close>, and only then calls
  \<open>fetch\<close>, with a body that holds the submitted text under \<open>message\<close> and nothing else.
  All of it is done when the call suspends; the request cannot settle before.
\<close>

theorem submit_start_order:
  assumes "trim (input s) \<noteq> []" and "\<not> loading s"
  shows "sendMessage (input s) (loading s) =
           [AppendMessage \<lparr>role = User, text' = Val (JStr (input s))\<rparr>,
            SetInput [],
            SetLoading True,
            Fetch \<lparr>url = API_URL, http_method = ascii ''POST'',
                   headers = [(ascii ''Content-Type'', ascii ''application/json'')],
                   body = JObj [(ascii ''message'', JStr (input s))]\<rparr>]
       \<and> execs (take 1 (sendMessage (input s) (loading s))) s =
           Inr (s\<lparr>messages := messages s @ [\<lparr>role = User, text' = Val (JStr (input s))\<rparr>]\<rparr>)
       \<and> execs (take 2 (sendMessage (input s) (loading s))) s =
           Inr (s\<lparr>messages := messages s @ [\<lparr>role = User, text' = Val (JStr (input s))\<rparr>],
                  input := []\<rparr>)
       \<and> execs (take 3 (sendMessage (input s) (loading s))) s =
           Inr (s\<lparr>messages := messages s @ [\<lparr>role = User, text' = Val (JStr (input s))\<rparr>],
                  input := [], loading := True\<rparr>)
       \<and> submit s =
           Next (s\<lparr>messages := messages s @ [\<lparr>role = User, text' = Val (JStr (input s))\<rparr>],
                   input := [], loading := True,
                   tasks := tasks s @
                     [AwaitFetch \<lparr>url = API_URL, http_method = ascii ''POST'',
                                  headers = [(ascii ''Content-Type'', ascii ''application/json'')],
                                  body = JObj [(ascii ''message'', JStr (input s))]\<rparr>]\<rparr>)
       \<and> step s (FetchSettled (length (tasks s)) r) = Impossible"
proof -
  from assms have eff: "sendMessage (input s) (loading s) =
           [AppendMessage \<lparr>role = User, text' = Val (JStr (input s))\<rparr>,
            SetInput [],
            SetLoading True,
            Fetch \<lparr>url = API_URL, http_method = ascii ''POST'',
                   headers = [(ascii ''Content-Type'', ascii ''application/json'')],
                   body = JObj [(ascii ''message'', JStr (input s))]\<rparr>]"
    by (simp add: sendMessage_def Let_def)
  show ?thesis
    unfolding submit_def eff by (simp add: commit_def Message_def renderable_string)
qed

theorem submit_start_order_witness:
  "trim (ascii ''Hello'') \<noteq> []
   \<and> submit \<lparr>messages = [], input = ascii ''Hello'', loading = False, tasks = [], unhandled = []\<rparr>
       = Next \<lparr>messages = [\<lparr>role = User, text' = Val (JStr (ascii ''Hello''))\<rparr>],
               input = [], loading = True,
               tasks = [AwaitFetch \<lparr>url = API_URL, http_method = ascii ''POST'',
                                    headers = [(ascii ''Content-Type'', ascii ''application/json'')],
                                    body = JObj [(ascii ''message'', JStr (ascii ''Hello''))]\<rparr>],
               unhandled = []\<rparr>"
proof -
  have h1: "trim (input \<lparr>messages = [], input = ascii ''Hello'', loading = False,
                        tasks = [], unhandled = []\<rparr>) \<noteq> []"
    using trim_Hello by simp
  have h2: "\<not> loading \<lparr>messages = [], input = ascii ''Hello'', loading = False,
                        tasks = [], unhandled = []\<rparr>"
    by simp
  from submit_start_order[OF h1 h2] trim_Hello show ?thesis by simp
qed

text \<open>
  C5. From the empty conversation, the draft "Hello" submitted and answered by a response
  whose body is \<open>{reply: "Hi there"}\<close> ends with the messages user "Hello", bot "Hi there",
  \<open>loading\<close> false and an empty draft. In general, when the parsed body is an object whose
  property \<open>reply\<close> is a string, the call ends by appending exactly one bot-role message,
  whose text is that string.
\<close>

theorem reply_is_appended:
  assumes "i < length (tasks s)" and "tasks s ! i = AwaitJson res"
    and "map_of props (ascii ''reply'') = Some (JStr t)"
  shows "run init [Change (ascii ''Hello''), Click, FetchSettled 0 (Resolved \<lparr>status = 200\<rparr>),
                   JsonSettled 0 (Resolved (JObj [(ascii ''reply'', JStr (ascii ''Hi there''))]))]
         = Next \<lparr>messages = [\<lparr>role = User, text' = Val (JStr (ascii ''Hello''))\<rparr>,
                               \<lparr>role = Bot, text' = Val (JStr (ascii ''Hi there''))\<rparr>],
                  input = [], loading = False, tasks = [], unhandled = []\<rparr>
       \<and> step s (JsonSettled i (Resolved (JObj props)))
         = Next (s\<lparr>messages := messages s @ [\<lparr>role = Bot, text' = Val (JStr t)\<rparr>],
                   loading := False,
                   tasks := take i (tasks s) @ drop (Suc i) (tasks s)\<rparr>)"
proof -
  from assms(3) have "reply (JObj props) = Inr (Val (JStr t))" by simp
  from step_json_replied[OF assms(1) assms(2) this renderable_string] run_hello_ok
  show ?thesis by simp
qed

theorem reply_is_appended_witness:
  "step \<lparr>messages = [\<lparr>role = User, text' = Val (JStr (ascii ''Hello''))\<rparr>], input = [],
          loading = True, tasks = [AwaitJson \<lparr>status = 200\<rparr>], unhandled = []\<rparr>
        (JsonSettled 0 (Resolved (JObj [(ascii ''reply'', JStr (ascii ''Hi there''))])))
   = Next \<lparr>messages = [\<lparr>role = User, text' = Val (JStr (ascii ''Hello''))\<rparr>,
                         \<lparr>role = Bot, text' = Val (JStr (ascii ''Hi there''))\<rparr>],
            input = [], loading = False, tasks = [], unhandled = []\<rparr>"
proof -
  have h1: "0 < length (tasks \<lparr>messages = [\<lparr>role = User, text' = Val (JStr (ascii ''Hello''))\<rparr>],
              input = [], loading = True, tasks = [AwaitJson \<lparr>status = 200\<rparr>],
              unhandled = []\<rparr>)"
    by simp
  have h2: "tasks \<lparr>messages = [\<lparr>role = User, text' = Val (JStr (ascii ''Hello''))\<rparr>],
              input = [], loading = True, tasks = [AwaitJson \<lparr>status = 200\<rparr>],
              unhandled = []\<rparr> ! 0 = AwaitJson \<lparr>status = 200\<rparr>"
    by simp
  have h3: "map_of [(ascii ''reply'', JStr (ascii ''Hi there''))] (ascii ''reply'')
              = Some (JStr (ascii ''Hi there''))"
    by simp
  from reply_is_appended[OF h1 h2 h3] show ?thesis by simp
qed

text \<open>
  C6. A request that fails (\<open>fetch\<close> rejects: the service is unreachable) and a body that
  cannot be decoded (\<open>res.json()\<close> rejects) each end the call by appending exactly one
  bot-role message with the text "Server not reachable" followed by U+1F615; the error is
  caught, so nothing is thrown past \<open>sendMessage\<close>. The draft "Hello" submitted to an
  unreachable service ends with the messages user "Hello", bot fallback.
\<close>

theorem failure_appends_fallback:
  assumes "i < length (tasks s)"
  shows "run init [Change (ascii ''Hello''), Click, FetchSettled 0 (Rejected TypeError)]
         = Next \<lparr>messages =
                    [\<lparr>role = User, text' = Val (JStr (ascii ''Hello''))\<rparr>,
                     \<lparr>role = Bot,
                      text' = Val (JStr (ascii ''Server not reachable '' @ [0xD83D, 0xDE15]))\<rparr>],
                  input = [], loading = False, tasks = [], unhandled = []\<rparr>
       \<and> (case tasks s ! i of
             AwaitFetch rq \<Rightarrow>
               step s (FetchSettled i (Rejected e))
               = Next (s\<lparr>messages := messages s @ [\<lparr>role = Bot, text' = Val (JStr fallback)\<rparr>],
                         loading := False,
                         tasks := take i (tasks s) @ drop (Suc i) (tasks s)\<rparr>)
           | AwaitJson res \<Rightarrow>
               step s (JsonSettled i (Rejected e))
               = Next (s\<lparr>messages := messages s @ [\<lparr>role = Bot, text' = Val (JStr fallback)\<rparr>],
                         loading := False,
                         tasks := take i (tasks s) @ drop (Suc i) (tasks s)\<rparr>))"
proof -
  have scenario: "run init [Change (ascii ''Hello''), Click, FetchSettled 0 (Rejected TypeError)]
         = Next \<lparr>messages =
                    [\<lparr>role = User, text' = Val (JStr (ascii ''Hello''))\<rparr>,
                     \<lparr>role = Bot,
                      text' = Val (JStr (ascii ''Server not reachable '' @ [0xD83D, 0xDE15]))\<rparr>],
                  input = [], loading = False, tasks = [], unhandled = []\<rparr>"
    using run_hello_unreachable by (simp only: fallback_def)
  show ?thesis
  proof (cases "tasks s ! i")
    case (AwaitFetch rq)
    from step_fetch_rejected[OF assms this] AwaitFetch scenario show ?thesis by simp
  next
    case (AwaitJson res)
    from step_json_rejected[OF assms this] AwaitJson scenario
    show ?thesis by simp
  qed
qed

theorem failure_appends_fallback_witness:
  "step \<lparr>messages = [\<lparr>role = User, text' = Val (JStr (ascii ''Hello''))\<rparr>], input = [],
          loading = True,
          tasks = [AwaitFetch \<lparr>url = API_URL, http_method = ascii ''POST'',
                               headers = [(ascii ''Content-Type'', ascii ''application/json'')],
                               body = JObj [(ascii ''message'', JStr (ascii ''Hello''))]\<rparr>],
          unhandled = []\<rparr>
        (FetchSettled 0 (Rejected TypeError))
   = Next \<lparr>messages = [\<lparr>role = User, text' = Val (JStr (ascii ''Hello''))\<rparr>,
                         \<lparr>role = Bot, text' = Val (JStr fallback)\<rparr>],
            input = [], loading = False, tasks = [], unhandled = []\<rparr>
   \<and> step \<lparr>messages = [\<lparr>role = User, text' = Val (JStr (ascii ''Hello''))\<rparr>], input = [],
          loading = True, tasks = [AwaitJson \<lparr>status = 200\<rparr>], unhandled = []\<rparr>
        (JsonSettled 0 (Rejected SyntaxError))
   = Next \<lparr>messages = [\<lparr>role = User, text' = Val (JStr (ascii ''Hello''))\<rparr>,
                         \<lparr>role = Bot, text' = Val (JStr fallback)\<rparr>],
            input = [], loading = False, tasks = [], unhandled = []\<rparr>"
proof -
  have h1: "0 < length (tasks \<lparr>messages = [\<lparr>role = User, text' = Val (JStr (ascii ''Hello''))\<rparr>],
          input = [], loading = True,
          tasks = [AwaitFetch \<lparr>url = API_URL, http_method = ascii ''POST'',
                               headers = [(ascii ''Content-Type'', ascii ''application/json'')],
                               body = JObj [(ascii ''message'', JStr (ascii ''Hello''))]\<rparr>],
          unhandled = []\<rparr>)"
    by simp
  have h2: "0 < length (tasks \<lparr>messages = [\<lparr>role = User, text' = Val (JStr (ascii ''Hello''))\<rparr>],
          input = [], loading = True, tasks = [AwaitJson \<lparr>status = 200\<rparr>], unhandled = []\<rparr>)"
    by simp
  from failure_appends_fallback[OF h1, of TypeError]
       failure_appends_fallback[OF h2, of SyntaxError]
  show ?thesis by simp
qed

text \<open>
  C7. In every state reached from the initial one, at most one call of \<open>sendMessage\<close> is
  suspended, and \<open>loading\<close> is true exactly while one is; in such a state a further submit
  changes nothing. With "A" submitted and then "B" submitted before the first request
  settles, only the request for "A" is issued and "B" stays in the draft; once the first
  call has ended, "B" can be submitted.
\<close>

theorem single_flight:
  assumes "run init es = Next s"
  shows "length (tasks s) \<le> 1
       \<and> (loading s \<longleftrightarrow> tasks s \<noteq> [])
       \<and> (tasks s \<noteq> [] \<longrightarrow>
            submit s = Next s \<and> step s (KeyDown (ascii ''Enter'') False) = Next s
            \<and> step s Click = Impossible)
       \<and> run init [Change (ascii ''A''), KeyDown (ascii ''Enter'') False,
                   Change (ascii ''B''), KeyDown (ascii ''Enter'') False]
         = Next \<lparr>messages = [\<lparr>role = User, text' = Val (JStr (ascii ''A''))\<rparr>],
                  input = ascii ''B'', loading = True,
                  tasks = [AwaitFetch
                             \<lparr>url = API_URL, http_method = ascii ''POST'',
                              headers = [(ascii ''Content-Type'', ascii ''application/json'')],
                              body = JObj [(ascii ''message'', JStr (ascii ''A''))]\<rparr>],
                  unhandled = []\<rparr>
       \<and> run init [Change (ascii ''A''), KeyDown (ascii ''Enter'') False,
                   Change (ascii ''B''), KeyDown (ascii ''Enter'') False,
                   FetchSettled 0 (Rejected TypeError), KeyDown (ascii ''Enter'') False]
         = Next \<lparr>messages = [\<lparr>role = User, text' = Val (JStr (ascii ''A''))\<rparr>,
                               \<lparr>role = Bot, text' = Val (JStr fallback)\<rparr>,
                               \<lparr>role = User, text' = Val (JStr (ascii ''B''))\<rparr>],
                  input = [], loading = True,
                  tasks = [AwaitFetch
                             \<lparr>url = API_URL, http_method = ascii ''POST'',
                              headers = [(ascii ''Content-Type'', ascii ''application/json'')],
                              body = JObj [(ascii ''message'', JStr (ascii ''B''))]\<rparr>],
                  unhandled = []\<rparr>"
proof -
  have "length (tasks init) \<le> 1 \<and> (loading init \<longleftrightarrow> tasks init \<noteq> [])"
    by (simp add: init_def)
  from one_task_run[OF this assms]
  have inv: "length (tasks s) \<le> 1 \<and> (loading s \<longleftrightarrow> tasks s \<noteq> [])" .
  have busy: "tasks s \<noteq> [] \<longrightarrow>
            submit s = Next s \<and> step s (KeyDown (ascii ''Enter'') False) = Next s
            \<and> step s Click = Impossible"
  proof
    assume "tasks s \<noteq> []"
    with inv have l: "loading s" by simp
    then have "submit s = Next s" by (simp add: submit_idle)
    with l show "submit s = Next s \<and> step s (KeyDown (ascii ''Enter'') False) = Next s
            \<and> step s Click = Impossible" by simp
  qed
  from inv busy run_A_B run_A_B_then_B show ?thesis by blast
qed

theorem single_flight_witness:
  "run init [Change (ascii ''A''), KeyDown (ascii ''Enter'') False, Change (ascii ''B'')]
     = Next \<lparr>messages = [\<lparr>role = User, text' = Val (JStr (ascii ''A''))\<rparr>],
              input = ascii ''B'', loading = True,
              tasks = [AwaitFetch
                         \<lparr>url = API_URL, http_method = ascii ''POST'',
                          headers = [(ascii ''Content-Type'', ascii ''application/json'')],
                          body = JObj [(ascii ''message'', JStr (ascii ''A''))]\<rparr>],
              unhandled = []\<rparr>
   \<and> submit \<lparr>messages = [\<lparr>role = User, text' = Val (JStr (ascii ''A''))\<rparr>],
              input = ascii ''B'', loading = True,
              tasks = [AwaitFetch
                         \<lparr>url = API_URL, http_method = ascii ''POST'',
                          headers = [(ascii ''Content-Type'', ascii ''application/json'')],
                          body = JObj [(ascii ''message'', JStr (ascii ''A''))]\<rparr>],
              unhandled = []\<rparr>
     = Next \<lparr>messages = [\<lparr>role = User, text' = Val (JStr (ascii ''A''))\<rparr>],
             input = ascii ''B'', loading = True,
             tasks = [AwaitFetch
                        \<lparr>url = API_URL, http_method = ascii ''POST'',
                         headers = [(ascii ''Content-Type'', ascii ''application/json'')],
                         body = JObj [(ascii ''message'', JStr (ascii ''A''))]\<rparr>],
             unhandled = []\<rparr>"
proof -
  have h: "run init [Change (ascii ''A''), KeyDown (ascii ''Enter'') False, Change (ascii ''B'')]
     = Next \<lparr>messages = [\<lparr>role = User, text' = Val (JStr (ascii ''A''))\<rparr>],
              input = ascii ''B'', loading = True,
              tasks = [AwaitFetch
                         \<lparr>url = API_URL, http_method = ascii ''POST'',
                          headers = [(ascii ''Content-Type'', ascii ''application/json'')],
                          body = JObj [(ascii ''message'', JStr (ascii ''A''))]\<rparr>],
              unhandled = []\<rparr>"
    by (simp add: init_def commit_def submit_start trim_A)
  from single_flight[OF h] h show ?thesis by simp
qed

text \<open>
  C8. The draft is set to the empty string by the step that starts a call of \<open>sendMessage\<close>
  and by no step that resumes or ends one: apart from the user's own edits, the draft
  changes only when a call starts. What is typed while \<open>loading\<close> is true is still in the draft
  after the call has ended.
\<close>

theorem draft_cleared_at_start_only:
  assumes "step s e = Next s'"
  shows "(length (tasks s) < length (tasks s') \<longrightarrow> input s' = [])
       \<and> (length (tasks s') < length (tasks s) \<longrightarrow> input s' = input s)
       \<and> (input s' \<noteq> input s \<longrightarrow> (\<exists>v. e = Change v) \<or> length (tasks s) < length (tasks s'))
       \<and> run init [Change (ascii ''Hello''), Click, Change (ascii ''next''),
                   FetchSettled 0 (Resolved \<lparr>status = 200\<rparr>),
                   JsonSettled 0 (Resolved (JObj [(ascii ''reply'', JStr (ascii ''Hi there''))]))]
         = Next \<lparr>messages = [\<lparr>role = User, text' = Val (JStr (ascii ''Hello''))\<rparr>,
                               \<lparr>role = Bot, text' = Val (JStr (ascii ''Hi there''))\<rparr>],
                  input = ascii ''next'', loading = False, tasks = [], unhandled = []\<rparr>"
proof -
  have steps: "(length (tasks s) < length (tasks s') \<longrightarrow> input s' = [])
       \<and> (length (tasks s') < length (tasks s) \<longrightarrow> input s' = input s)
       \<and> (input s' \<noteq> input s \<longrightarrow> (\<exists>v. e = Change v) \<or> length (tasks s) < length (tasks s'))"
  proof (cases e)
    case (Change v)
    with assms show ?thesis by (auto simp: commit_def)
  next
    case (KeyDown k shiftKey)
    with assms submit_cases[of s] show ?thesis by (auto split: if_splits)
  next
    case Click
    with assms submit_cases[of s] show ?thesis by (auto split: if_splits)
  next
    case (FetchSettled i r)
    with assms have i: "i < length (tasks s)" using settled_index by blast
    from FetchSettled assms step_fetch_cases[of s i r s'] i show ?thesis by auto
  next
    case (JsonSettled i r)
    with assms have i: "i < length (tasks s)" using settled_index by blast
    from JsonSettled assms step_json_appends[of s i r s'] i show ?thesis by auto
  qed
  with run_hello_edit show ?thesis by blast
qed

theorem draft_cleared_at_start_only_witness:
  "step \<lparr>messages = [], input = ascii ''Hello'', loading = False, tasks = [], unhandled = []\<rparr>
        Click
   = Next \<lparr>messages = [\<lparr>role = User, text' = Val (JStr (ascii ''Hello''))\<rparr>],
            input = [], loading = True,
            tasks = [AwaitFetch
                       \<lparr>url = API_URL, http_method = ascii ''POST'',
                        headers = [(ascii ''Content-Type'', ascii ''application/json'')],
                        body = JObj [(ascii ''message'', JStr (ascii ''Hello''))]\<rparr>],
            unhandled = []\<rparr>
   \<and> step \<lparr>messages = [\<lparr>role = User, text' = Val (JStr (ascii ''Hello''))\<rparr>],
            input = ascii ''next'', loading = True, tasks = [AwaitJson \<lparr>status = 200\<rparr>],
            unhandled = []\<rparr>
        (JsonSettled 0 (Rejected SyntaxError))
   = Next \<lparr>messages = [\<lparr>role = User, text' = Val (JStr (ascii ''Hello''))\<rparr>,
                         \<lparr>role = Bot, text' = Val (JStr fallback)\<rparr>],
            input = ascii ''next'', loading = False, tasks = [], unhandled = []\<rparr>"
proof -
  have h1: "step \<lparr>messages = [], input = ascii ''Hello'', loading = False, tasks = [],
                  unhandled = []\<rparr> Click
   = Next \<lparr>messages = [\<lparr>role = User, text' = Val (JStr (ascii ''Hello''))\<rparr>],
            input = [], loading = True,
            tasks = [AwaitFetch
                       \<lparr>url = API_URL, http_method = ascii ''POST'',
                        headers = [(ascii ''Content-Type'', ascii ''application/json'')],
                        body = JObj [(ascii ''message'', JStr (ascii ''Hello''))]\<rparr>],
            unhandled = []\<rparr>"
    by (simp add: submit_start trim_Hello)
  have h2: "step \<lparr>messages = [\<lparr>role = User, text' = Val (JStr (ascii ''Hello''))\<rparr>],
            input = ascii ''next'', loading = True, tasks = [AwaitJson \<lparr>status = 200\<rparr>],
            unhandled = []\<rparr>
        (JsonSettled 0 (Rejected SyntaxError))
   = Next \<lparr>messages = [\<lparr>role = User, text' = Val (JStr (ascii ''Hello''))\<rparr>,
                         \<lparr>role = Bot, text' = Val (JStr fallback)\<rparr>],
            input = ascii ''next'', loading = False, tasks = [], unhandled = []\<rparr>"
    by (simp add: after_json_def finish_caught)
  from draft_cleared_at_start_only[OF h1] draft_cleared_at_start_only[OF h2] h1 h2
  show ?thesis by blast
qed

text \<open>
  C9. Whatever events happen, the messages held before them are an initial segment of the
  messages held after them: entries are only ever added at the end, and no entry is
  removed, moved or changed.
\<close>

theorem messages_append_only:
  assumes "run s es = Next s'"
  shows "prefix (messages s) (messages s')"
  using assms
proof (induction es arbitrary: s)
  case Nil
  then show ?case by simp
next
  case (Cons e es)
  from Cons.prems obtain s1 where s1: "step s e = Next s1" and r: "run s1 es = Next s'"
    by (auto split: outcome.splits)
  from messages_prefix_step[OF s1] Cons.IH[OF r] show ?case by (rule prefix_order.trans)
qed

theorem messages_append_only_witness:
  "run \<lparr>messages = [\<lparr>role = User, text' = Val (JStr (ascii ''Hello''))\<rparr>,
                     \<lparr>role = Bot, text' = Val (JStr fallback)\<rparr>],
        input = [], loading = False, tasks = [], unhandled = []\<rparr>
       [Change (ascii ''A''), KeyDown (ascii ''Enter'') False, FetchSettled 0 (Rejected TypeError)]
   = Next \<lparr>messages = [\<lparr>role = User, text' = Val (JStr (ascii ''Hello''))\<rparr>,
                         \<lparr>role = Bot, text' = Val (JStr fallback)\<rparr>,
                         \<lparr>role = User, text' = Val (JStr (ascii ''A''))\<rparr>,
                         \<lparr>role = Bot, text' = Val (JStr fallback)\<rparr>],
            input = [], loading = False, tasks = [], unhandled = []\<rparr>
   \<and> prefix [\<lparr>role = User, text' = Val (JStr (ascii ''Hello''))\<rparr>,
              \<lparr>role = Bot, text' = Val (JStr fallback)\<rparr>]
             [\<lparr>role = User, text' = Val (JStr (ascii ''Hello''))\<rparr>,
              \<lparr>role = Bot, text' = Val (JStr fallback)\<rparr>,
              \<lparr>role = User, text' = Val (JStr (ascii ''A''))\<rparr>,
              \<lparr>role = Bot, text' = Val (JStr fallback)\<rparr>]"
proof -
  have h: "run \<lparr>messages = [\<lparr>role = User, text' = Val (JStr (ascii ''Hello''))\<rparr>,
                     \<lparr>role = Bot, text' = Val (JStr fallback)\<rparr>],
        input = [], loading = False, tasks = [], unhandled = []\<rparr>
       [Change (ascii ''A''), KeyDown (ascii ''Enter'') False, FetchSettled 0 (Rejected TypeError)]
   = Next \<lparr>messages = [\<lparr>role = User, text' = Val (JStr (ascii ''Hello''))\<rparr>,
                         \<lparr>role = Bot, text' = Val (JStr fallback)\<rparr>,
                         \<lparr>role = User, text' = Val (JStr (ascii ''A''))\<rparr>,
                         \<lparr>role = Bot, text' = Val (JStr fallback)\<rparr>],
            input = [], loading = False, tasks = [], unhandled = []\<rparr>"
    by (simp add: commit_def submit_start trim_A after_fetch_def finish_caught)
  from messages_append_only[OF h] h show ?thesis by simp
qed

text \<open>
  C2, as stated, fails: \<open>sendMessage\<close> never looks at the status of the response. A response
  with status 500 whose body is the JSON object \<open>{detail: "Internal Server Error"}\<close> takes the
  same path as a success: the appended bot-role message has the text \<open>undefined\<close>, not the
  fallback string.
\<close>

theorem http_error_status_is_not_a_failure:
  "run init [Change (ascii ''Hello''), Click, FetchSettled 0 (Resolved \<lparr>status = 500\<rparr>),
             JsonSettled 0
               (Resolved (JObj [(ascii ''detail'', JStr (ascii ''Internal Server Error''))]))]
   = Next \<lparr>messages = [\<lparr>role = User, text' = Val (JStr (ascii ''Hello''))\<rparr>,
                         \<lparr>role = Bot, text' = Undefined\<rparr>],
            input = [], loading = False, tasks = [], unhandled = []\<rparr>
   \<and> last [\<lparr>role = User, text' = Val (JStr (ascii ''Hello''))\<rparr>,
            \<lparr>role = Bot, text' = Undefined\<rparr>]
       \<noteq> \<lparr>role = Bot, text' = Val (JStr fallback)\<rparr>"
  using run_hello_500 by simp

text \<open>
  C2, amended. A connection failure (\<open>fetch\<close> rejects) and a body that cannot be decoded
  (\<open>res.json()\<close> rejects) are treated alike, whatever the error and whatever the status of
  the response: the call ends in the same state, with the fallback string appended as a
  bot-role message. The status is not inspected: what a response leads to depends on its
  body alone.
\<close>

theorem rejections_are_uniform:
  assumes "i < length (tasks s)"
  shows "step (s\<lparr>tasks := (tasks s)[i := AwaitFetch rq]\<rparr>) (FetchSettled i (Rejected e))
         = Next (s\<lparr>messages := messages s @ [\<lparr>role = Bot, text' = Val (JStr fallback)\<rparr>],
                   loading := False,
                   tasks := take i (tasks s) @ drop (Suc i) (tasks s)\<rparr>)
       \<and> step (s\<lparr>tasks := (tasks s)[i := AwaitJson res]\<rparr>) (JsonSettled i (Rejected e'))
         = Next (s\<lparr>messages := messages s @ [\<lparr>role = Bot, text' = Val (JStr fallback)\<rparr>],
                   loading := False,
                   tasks := take i (tasks s) @ drop (Suc i) (tasks s)\<rparr>)
       \<and> step (s\<lparr>tasks := (tasks s)[i := AwaitJson res]\<rparr>) (JsonSettled i r)
         = step (s\<lparr>tasks := (tasks s)[i := AwaitJson res']\<rparr>) (JsonSettled i r)"
proof -
  let ?f = "s\<lparr>tasks := (tasks s)[i := AwaitFetch rq]\<rparr>"
  let ?j = "s\<lparr>tasks := (tasks s)[i := AwaitJson res]\<rparr>"
  let ?j' = "s\<lparr>tasks := (tasks s)[i := AwaitJson res']\<rparr>"
  have f: "i < length (tasks ?f)" "tasks ?f ! i = AwaitFetch rq"
    using assms by simp_all
  have j: "i < length (tasks ?j)" "tasks ?j ! i = AwaitJson res"
    using assms by simp_all
  have j': "i < length (tasks ?j')" "tasks ?j' ! i = AwaitJson res'"
    using assms by simp_all
  have 1: "step ?f (FetchSettled i (Rejected e))
         = Next (s\<lparr>messages := messages s @ [\<lparr>role = Bot, text' = Val (JStr fallback)\<rparr>],
                   loading := False,
                   tasks := take i (tasks s) @ drop (Suc i) (tasks s)\<rparr>)"
    unfolding step_fetch_rejected[OF f] by simp
  have 2: "step ?j (JsonSettled i (Rejected e'))
         = Next (s\<lparr>messages := messages s @ [\<lparr>role = Bot, text' = Val (JStr fallback)\<rparr>],
                   loading := False,
                   tasks := take i (tasks s) @ drop (Suc i) (tasks s)\<rparr>)"
    unfolding step_json_rejected[OF j] by simp
  have 3: "step ?j (JsonSettled i r) = step ?j' (JsonSettled i r)"
    unfolding step_json[OF j] step_json[OF j'] by (simp split: settled.split sum.split)
  from 1 2 3 show ?thesis by blast
qed

theorem rejections_are_uniform_witness:
  "step \<lparr>messages = [\<lparr>role = User, text' = Val (JStr (ascii ''Hello''))\<rparr>], input = [],
          loading = True, tasks = [AwaitJson \<lparr>status = 500\<rparr>], unhandled = []\<rparr>
        (JsonSettled 0 (Rejected SyntaxError))
   = Next \<lparr>messages = [\<lparr>role = User, text' = Val (JStr (ascii ''Hello''))\<rparr>,
                         \<lparr>role = Bot, text' = Val (JStr fallback)\<rparr>],
            input = [], loading = False, tasks = [], unhandled = []\<rparr>
   \<and> step \<lparr>messages = [\<lparr>role = User, text' = Val (JStr (ascii ''Hello''))\<rparr>], input = [],
          loading = True, tasks = [AwaitJson \<lparr>status = 500\<rparr>], unhandled = []\<rparr>
        (JsonSettled 0 (Resolved (JObj [(ascii ''reply'', JStr (ascii ''Hi there''))])))
   = step \<lparr>messages = [\<lparr>role = User, text' = Val (JStr (ascii ''Hello''))\<rparr>], input = [],
          loading = True, tasks = [AwaitJson \<lparr>status = 200\<rparr>], unhandled = []\<rparr>
        (JsonSettled 0 (Resolved (JObj [(ascii ''reply'', JStr (ascii ''Hi there''))])))"
proof -
  have h: "0 < length (tasks \<lparr>messages = [\<lparr>role = User, text' = Val (JStr (ascii ''Hello''))\<rparr>],
              input = [], loading = True, tasks = [AwaitJson \<lparr>status = 500\<rparr>],
              unhandled = []\<rparr>)"
    by simp
  from rejections_are_uniform[OF h, of _ _ "\<lparr>status = 500\<rparr>" SyntaxError
         "Resolved (JObj [(ascii ''reply'', JStr (ascii ''Hi there''))])" "\<lparr>status = 200\<rparr>"]
  show ?thesis by simp
qed

text \<open>
  C10, as stated, fails for one body that parses as JSON: \<open>null\<close>. \<open>data.reply\<close> is read by
  the updater when React applies it; on \<open>null\<close> the read throws there, outside the \<open>try\<close>
  block, so no message is appended, with the text \<open>undefined\<close> or any other, and the
  component is unmounted. This happens whatever the status of the response.
\<close>

theorem null_body_is_not_an_absent_reply:
  "run init [Change (ascii ''Hello''), Click, FetchSettled 0 (Resolved \<lparr>status = 500\<rparr>),
             JsonSettled 0 (Resolved JNull)]
   = Crash TypeError
   \<and> step \<lparr>messages = [\<lparr>role = User, text' = Val (JStr (ascii ''Hello''))\<rparr>], input = [],
            loading = True, tasks = [AwaitJson \<lparr>status = 200\<rparr>], unhandled = []\<rparr>
          (JsonSettled 0
             (Resolved (JObj [(ascii ''reply'', JObj [(ascii ''text'', JStr (ascii ''Hi''))])])))
   = Crash InvalidChild"
  by (simp add: init_def commit_def submit_start trim_Hello after_fetch_def after_json_def
      finish_reply renderable_def)

text \<open>
  C10, amended. The success path does not check that \<open>reply\<close> is there: for every response,
  of any status, whose body parses as JSON to a value other than \<open>null\<close>, and whose \<open>reply\<close>
  React can render (it is absent, or a string, a number, a boolean, \<open>null\<close> or an array of
  such), exactly one bot-role message is appended, and its text is the value of the \<open>reply\<close>
  property of the body, which is \<open>undefined\<close> when the body is an object without that
  property or is not an object.
\<close>

theorem reply_is_not_validated:
  assumes "i < length (tasks s)" and "tasks s ! i = AwaitJson res" and "data \<noteq> JNull"
    and "renderable (case data of
                       JObj props \<Rightarrow>
                         (case map_of props (ascii ''reply'') of
                            None \<Rightarrow> Undefined
                          | Some v \<Rightarrow> Val v)
                     | _ \<Rightarrow> Undefined)"
  shows "step s (JsonSettled i (Resolved data))
         = Next (s\<lparr>messages := messages s @
                     [\<lparr>role = Bot,
                       text' = (case data of
                                  JObj props \<Rightarrow>
                                    (case map_of props (ascii ''reply'') of
                                       None \<Rightarrow> Undefined
                                     | Some v \<Rightarrow> Val v)
                                | _ \<Rightarrow> Undefined)\<rparr>],
                   loading := False,
                   tasks := take i (tasks s) @ drop (Suc i) (tasks s)\<rparr>)"
proof -
  from assms(3) have "reply data = Inr (case data of
                                  JObj props \<Rightarrow>
                                    (case map_of props (ascii ''reply'') of
                                       None \<Rightarrow> Undefined
                                     | Some v \<Rightarrow> Val v)
                                | _ \<Rightarrow> Undefined)"
    by (cases data) simp_all
  from step_json_replied[OF assms(1) assms(2) this assms(4)] show ?thesis .
qed

theorem reply_is_not_validated_witness:
  "step \<lparr>messages = [\<lparr>role = User, text' = Val (JStr (ascii ''Hello''))\<rparr>], input = [],
          loading = True, tasks = [AwaitJson \<lparr>status = 500\<rparr>], unhandled = []\<rparr>
        (JsonSettled 0
           (Resolved (JObj [(ascii ''detail'', JStr (ascii ''Internal Server Error''))])))
   = Next \<lparr>messages = [\<lparr>role = User, text' = Val (JStr (ascii ''Hello''))\<rparr>,
                         \<lparr>role = Bot, text' = Undefined\<rparr>],
            input = [], loading = False, tasks = [], unhandled = []\<rparr>"
proof -
  have h1: "0 < length (tasks \<lparr>messages = [\<lparr>role = User, text' = Val (JStr (ascii ''Hello''))\<rparr>],
              input = [], loading = True, tasks = [AwaitJson \<lparr>status = 500\<rparr>],
              unhandled = []\<rparr>)"
    by simp
  have h2: "tasks \<lparr>messages = [\<lparr>role = User, text' = Val (JStr (ascii ''Hello''))\<rparr>],
              input = [], loading = True, tasks = [AwaitJson \<lparr>status = 500\<rparr>],
              unhandled = []\<rparr> ! 0 = AwaitJson \<lparr>status = 500\<rparr>"
    by simp
  have h3: "JObj [(ascii ''detail'', JStr (ascii ''Internal Server Error''))] \<noteq> JNull"
    by simp
  have h4: "renderable (case JObj [(ascii ''detail'', JStr (ascii ''Internal Server Error''))] of
                       JObj props \<Rightarrow>
                         (case map_of props (ascii ''reply'') of
                            None \<Rightarrow> Undefined
                          | Some v \<Rightarrow> Val v)
                     | _ \<Rightarrow> Undefined)"
    using detail_neq_reply by (simp add: renderable_def)
  from reply_is_not_validated[OF h1 h2 h3 h4] detail_neq_reply show ?thesis by simp
qed

end
